theory Spec2Isabelle
  imports Complex_Main "HOL-Library.Word"
begin

unbundle bit_operations_syntax

section \<open>Miner.h: work packages and solutions\<close>

text \<open>
  Modelled from the spec: \<open>h256\<close> (\<open>dev::FixedHash<32>\<close> of libdevcore) is not among the
  sources. The spec calls it a 256-bit value whose order is that of 256-bit unsigned
  integers; \<open>h256()\<close> is the all-zero value. A \<open>256 word\<close> carries exactly that: \<open><\<close> on
  words is the unsigned order and \<open>0\<close> is \<open>h256{}\<close>.
\<close>

type_synonym h256 = "256 word"

text \<open>\<open>struct WorkPackage\<close>; the default member initialisers give \<open>WorkPackage_default\<close>.\<close>

record WorkPackage =
  job :: string
  boundary :: h256
  header :: h256
  seed :: h256
  block_boundary :: h256
  epoch :: "32 word option"
  block :: "32 word option"
  startNonce :: "64 word"
  exSizeBytes :: "16 word"
  algo :: string

definition WorkPackage_default :: WorkPackage where
  "WorkPackage_default =
     \<lparr> job = [], boundary = 0, header = 0, seed = 0, block_boundary = 0,
       epoch = None, block = None, startNonce = 0, exSizeBytes = 0, algo = ''meowpow'' \<rparr>"

text \<open>\<open>explicit operator bool() const { return header != h256(); }\<close>\<close>

definition WorkPackage_bool :: "WorkPackage \<Rightarrow> bool" where
  "WorkPackage_bool wp = (header wp \<noteq> 0)"

text \<open>\<open>h256 get_boundary() const\<close>, branch by branch.\<close>

definition get_boundary :: "WorkPackage \<Rightarrow> h256" where
  "get_boundary wp =
     (if block_boundary wp = 0 then boundary wp
      else if boundary wp < block_boundary wp then block_boundary wp
      else boundary wp)"

text \<open>\<open>struct Solution\<close>; the time stamp is a tick count of the steady clock.\<close>

record Solution =
  nonce :: "64 word"
  mixHash :: h256
  work :: WorkPackage
  tstamp :: nat
  midx :: "32 word"

section \<open>Collaborators of the pool manager\<close>

text \<open>
  Modelled from the spec: \<open>URI\<close> (the spec's PoolEndpoint) is declared outside the
  sources. Only what \<open>PoolManager\<close> reads is kept: the connection string \<open>str()\<close>,
  \<open>Host()\<close>, \<open>Port()\<close>, the protocol family (the spec's three families), the host name
  type and the sticky unrecoverable flag.
\<close>

datatype ProtocolFamily = GETWORK | STRATUM | SIMULATION

datatype UriHostNameType = Unknown | Basic | Dns | IPV4 | IPV6

record URI =
  str :: string
  Host :: string
  Port :: "16 word"
  Family :: ProtocolFamily
  HostNameType :: UriHostNameType
  IsUnrecoverable :: bool

text \<open>\<open>struct PoolSettings\<close> of PoolManager.h; \<open>unsigned\<close> is a 32-bit word.\<close>

record PoolSettings =
  connections :: "URI list"
  getWorkPollInterval :: "32 word"
  noWorkTimeout :: "32 word"
  noResponseTimeout :: "32 word"
  poolFailoverTimeout :: "32 word"
  reportHashrate :: bool
  hashRateInterval :: "32 word"
  hashRateId :: string
  connectionMaxRetries :: "32 word"
  benchmarkBlock :: "32 word"
  benchmarkDiff :: real

text \<open>
  Modelled from the spec: the \<open>PoolClient\<close> classes are declared outside the sources. A
  client is the variant \<open>rotateConnect\<close> constructed (with its constructor arguments),
  the answer of \<open>isConnected()\<close>, the endpoint given by \<open>setConnection\<close> (cleared by
  \<open>unsetConnection\<close>) and whether \<open>setClientHandlers\<close> has bound the callbacks.
\<close>

datatype client_variant =
    EthGetworkClient "32 word" "32 word"
  | EthStratumClient "32 word" "32 word"
  | SimulateClient "32 word" real

record PoolClient =
  variant :: client_variant
  m_connected :: bool
  m_conn :: "URI option"
  handlers_bound :: bool

text \<open>
  Modelled from the spec: \<open>Farm\<close> is declared outside the sources. The manager reads
  \<open>isMining()\<close>, \<open>paused()\<close> and \<open>get_ergodicity()\<close>; \<open>start\<close>/\<open>stop\<close> and
  \<open>pause\<close>/\<open>resume\<close> switch the first two.
\<close>

record Farm =
  isMining :: bool
  paused :: bool
  get_ergodicity :: "32 word"

text \<open>
  Handlers that the manager (or, for \<open>ClientDisconnected\<close>, its client) posts on the
  strand of \<open>g_io_service\<close>; they run later, in order.
\<close>

datatype handler = RotateConnect | ClientDisconnected

text \<open>
  What the manager does to the outside, in the order it does it: log lines, calls on the
  client, calls on the farm, the termination signal.
\<close>

datatype effect =
    Note string
  | Warn string
  | NoteWasted "64 word"
  | NoteMiningAt "32 word" h256
  | NoteJob h256 "32 word option" string
  | ClientSubmitSolution Solution
  | ClientConnect URI
  | ClientDisconnect
  | FarmStart
  | FarmStop
  | FarmPause
  | FarmResume
  | FarmShuffle
  | FarmSetWork WorkPackage
  | RaiseSIGTERM

text \<open>What a call can throw. Dereferencing the null \<open>p_client\<close> is a crash.\<close>

datatype exception =
    runtime_error string
  | out_of_range
  | bad_optional_access
  | null_dereference

section \<open>PoolManager\<close>

text \<open>
  The members of \<open>class PoolManager\<close>, with the singletons and the outside it touches:
  the farm, the handlers posted on the strand and the effects so far. A deadline timer
  is \<open>Some d\<close> while an asynchronous wait of duration \<open>d\<close> is pending and \<open>None\<close> once
  cancelled (or never armed).
\<close>

record PoolManager =
  m_Settings :: PoolSettings
  m_running :: bool
  m_stopping :: bool
  m_async_pending :: bool
  m_connectionAttempt :: "32 word"
  m_selectedHost :: string
  m_connectionSwitches :: "32 word"
  m_activeConnectionIdx :: "32 word"
  m_currentWp :: WorkPackage
  m_failovertimer :: "32 word option"
  m_submithrtimer :: "32 word option"
  p_client :: "PoolClient option"
  m_epochChanges :: "32 word"
  farm :: Farm
  posted :: "handler list"
  effects :: "effect list"

text \<open>A call either returns in a new state or throws, leaving the state it reached.\<close>

type_synonym outcome = "exception \<times> PoolManager + PoolManager"

definition emit :: "effect \<Rightarrow> PoolManager \<Rightarrow> PoolManager" where
  "emit e pm = pm\<lparr>effects := effects pm @ [e]\<rparr>"

definition Farm_start :: "PoolManager \<Rightarrow> PoolManager" where
  "Farm_start pm = emit FarmStart (pm\<lparr>farm := (farm pm)\<lparr>isMining := True\<rparr>\<rparr>)"

definition Farm_stop :: "PoolManager \<Rightarrow> PoolManager" where
  "Farm_stop pm = emit FarmStop (pm\<lparr>farm := (farm pm)\<lparr>isMining := False\<rparr>\<rparr>)"

definition Farm_pause :: "PoolManager \<Rightarrow> PoolManager" where
  "Farm_pause pm = emit FarmPause (pm\<lparr>farm := (farm pm)\<lparr>paused := True\<rparr>\<rparr>)"

definition Farm_resume :: "PoolManager \<Rightarrow> PoolManager" where
  "Farm_resume pm = emit FarmResume (pm\<lparr>farm := (farm pm)\<lparr>paused := False\<rparr>\<rparr>)"

text \<open>\<open>p_client && p_client->isConnected()\<close>\<close>

definition client_isConnected :: "PoolManager \<Rightarrow> bool" where
  "client_isConnected pm = (case p_client pm of None \<Rightarrow> False | Some c \<Rightarrow> m_connected c)"

text \<open>
  Modelled from the spec: \<open>PoolClient::disconnect()\<close>. The client leaves the connected
  state and emits \<open>onDisconnected\<close>, which reaches the manager through the strand.
  Called through the null \<open>p_client\<close> it is a crash.
\<close>

definition client_disconnect :: "PoolManager \<Rightarrow> outcome" where
  "client_disconnect pm =
     (case p_client pm of
        None \<Rightarrow> Inl (null_dereference, pm)
      | Some c \<Rightarrow>
          Inr (emit ClientDisconnect
                 (pm\<lparr>p_client := Some (c\<lparr>m_connected := False\<rparr>),
                     posted := posted pm @ [ClientDisconnected]\<rparr>)))"

text \<open>
  The constructor: the members' default initialisers, \<open>m_currentWp.header = h256()\<close>, and
  the farm as it is at that moment.
\<close>

definition PoolManager_new :: "PoolSettings \<Rightarrow> Farm \<Rightarrow> PoolManager" where
  "PoolManager_new settings f =
     \<lparr> m_Settings = settings, m_running = False, m_stopping = False,
       m_async_pending = False, m_connectionAttempt = 0, m_selectedHost = [],
       m_connectionSwitches = 0, m_activeConnectionIdx = 0,
       m_currentWp = WorkPackage_default\<lparr>header := 0\<rparr>,
       m_failovertimer = None, m_submithrtimer = None, p_client = None,
       m_epochChanges = 0, farm = f, posted = [], effects = [] \<rparr>"

text \<open>
  The \<open>onSolutionFound\<close> callback installed by the constructor. It returns \<open>false\<close> on
  both paths.
\<close>

definition onSolutionFound :: "PoolManager \<Rightarrow> Solution \<Rightarrow> PoolManager \<times> bool" where
  "onSolutionFound pm sol =
     (if client_isConnected pm then (emit (ClientSubmitSolution sol) pm, False)
      else (emit (NoteWasted (nonce sol)) pm, False))"

text \<open>\<open>PoolManager::start()\<close>: three stores and one post, no test of any flag.\<close>

definition start :: "PoolManager \<Rightarrow> PoolManager" where
  "start pm =
     pm\<lparr>m_running := True, m_async_pending := True,
        m_connectionSwitches := m_connectionSwitches pm + 1,
        posted := posted pm @ [RotateConnect]\<rparr>"

subsection \<open>Small helpers of the standard library\<close>

text \<open>\<open>std::to_string\<close> on an unsigned number: its decimal digits.\<close>

function to_string :: "nat \<Rightarrow> string" where
  "to_string n =
     (if n < 10 then [char_of (48 + n)]
      else to_string (n div 10) @ [char_of (48 + n mod 10)])"
  by pat_completeness auto
termination
  by (relation "measure id") auto

declare to_string.simps [simp del]



text \<open>\<open>std::vector::at\<close> throws \<open>std::out_of_range\<close> past the end; \<open>erase\<close> of one position.\<close>

definition vector_at :: "'a list \<Rightarrow> nat \<Rightarrow> 'a option" where
  "vector_at xs i = (if i < length xs then Some (xs ! i) else None)"

definition erase :: "'a list \<Rightarrow> nat \<Rightarrow> 'a list" where
  "erase xs i = take i xs @ drop (Suc i) xs"

text \<open>
  \<open>std::atomic<bool>::compare_exchange_weak(expected, desired)\<close> on the value \<open>cur\<close>:
  whether it succeeded, and the value stored afterwards. The weak form may fail
  spuriously (\<open>spurious\<close>) although \<open>cur\<close> equals \<open>expected\<close>.
\<close>

definition compare_exchange_weak :: "bool \<Rightarrow> bool \<Rightarrow> bool \<Rightarrow> bool \<Rightarrow> bool \<times> bool" where
  "compare_exchange_weak spurious cur expected desired =
     (if cur = expected \<and> \<not> spurious then (True, desired) else (False, cur))"

subsection \<open>rotateConnect\<close>

text \<open>
  The client \<open>rotateConnect\<close> constructs for an endpoint: one of the three \<open>if\<close>s on
  \<open>Family()\<close> applies; \<open>setClientHandlers\<close> then binds the callbacks.
\<close>

definition new_client :: "PoolSettings \<Rightarrow> URI \<Rightarrow> PoolClient" where
  "new_client s u =
     \<lparr> variant =
         (case Family u of
            GETWORK \<Rightarrow> EthGetworkClient (noWorkTimeout s) (getWorkPollInterval s)
          | STRATUM \<Rightarrow> EthStratumClient (noWorkTimeout s) (noResponseTimeout s)
          | SIMULATION \<Rightarrow> SimulateClient (benchmarkBlock s) (benchmarkDiff s)),
       m_connected = False, m_conn = None, handlers_bound = True \<rparr>"

text \<open>
  \<open>PoolManager::rotateConnect()\<close>, in the order of the source: the early return while a
  client is connected; the bounds reset; the policy on the current endpoint
  (unrecoverable, retries used up with one endpoint or with several, neither); then
  either a new client and \<open>connect()\<close>, or the exit path. Every \<open>connections.at(...)\<close>
  goes through \<open>vector_at\<close>; the ones of the connect path read the endpoint \<open>u'\<close> again.
\<close>

definition rotateConnect :: "PoolManager \<Rightarrow> outcome" where
  "rotateConnect pm =
     (if client_isConnected pm then Inr pm
      else
        let pm1 =
              (if length (connections (m_Settings pm)) \<le> unat (m_activeConnectionIdx pm)
               then pm\<lparr>m_activeConnectionIdx := 0\<rparr> else pm);
            conns = connections (m_Settings pm1);
            idx = m_activeConnectionIdx pm1
        in
        case vector_at conns (unat idx) of
          None \<Rightarrow> Inl (out_of_range, pm1)
        | Some u \<Rightarrow>
            let pm2 =
                  (if IsUnrecoverable u then
                     let pmA = pm1\<lparr>m_Settings := (m_Settings pm1)\<lparr>connections := erase conns (unat idx)\<rparr>,
                                   m_connectionAttempt := 0\<rparr>;
                         pmB = (if length (connections (m_Settings pmA)) \<le> unat (m_activeConnectionIdx pmA)
                                then pmA\<lparr>m_activeConnectionIdx := 0\<rparr> else pmA)
                     in pmB\<lparr>m_connectionSwitches := m_connectionSwitches pmB + 1\<rparr>
                   else if connectionMaxRetries (m_Settings pm1) \<le> m_connectionAttempt pm1 then
                     (if length conns = 1 then pm1\<lparr>m_connectionAttempt := 0\<rparr>
                      else
                        let pmA = pm1\<lparr>m_connectionAttempt := 0, m_activeConnectionIdx := idx + 1\<rparr>;
                            pmB = (if length (connections (m_Settings pmA)) \<le> unat (m_activeConnectionIdx pmA)
                                   then pmA\<lparr>m_activeConnectionIdx := 0\<rparr> else pmA)
                        in pmB\<lparr>m_connectionSwitches := m_connectionSwitches pmB + 1\<rparr>)
                   else pm1);
                exit_path =
                  (let pm3 = emit (Note (if connections (m_Settings pm2) = []
                                         then ''No more connections to try. Exiting...''
                                         else '''exit' failover just got hit. Exiting...'')) pm2;
                       pm4 = (if isMining (farm pm3)
                              then Farm_stop (emit (Note ''Shutting down miners...'') pm3) else pm3)
                   in Inr (emit RaiseSIGTERM (pm4\<lparr>m_running := False\<rparr>)))
            in
            if connections (m_Settings pm2) = [] then exit_path
            else
              (case vector_at (connections (m_Settings pm2)) (unat (m_activeConnectionIdx pm2)) of
                None \<Rightarrow> Inl (out_of_range, pm2)
              | Some u' \<Rightarrow>
                  if Host u' \<noteq> ''exit'' then
                    let c = new_client (m_Settings pm2) u';
                        pm3 = pm2\<lparr>p_client := Some c,
                                  m_connectionAttempt := m_connectionAttempt pm2 + 1,
                                  m_selectedHost := Host u' @ '':'' @ to_string (unat (Port u'))\<rparr>;
                        pm4 = pm3\<lparr>p_client := Some (c\<lparr>m_conn := Some u'\<rparr>)\<rparr>;
                        pm5 = emit (Note (''Selected pool '' @ m_selectedHost pm4)) pm4
                    in Inr (emit (ClientConnect u') pm5)
                  else exit_path))"

subsection \<open>The client's callbacks\<close>

text \<open>
  \<open>onConnected\<close>. \<open>ep\<close> is what \<open>p_client->ActiveEndPoint()\<close> returns. The work package
  reset clears \<open>job\<close> and \<open>header\<close> and nothing else.
\<close>

definition onConnected :: "PoolManager \<Rightarrow> string \<Rightarrow> outcome" where
  "onConnected pm ep =
     (case p_client pm of
        None \<Rightarrow> Inl (null_dereference, pm)
      | Some c \<Rightarrow>
          (case m_conn c of
             None \<Rightarrow> Inl (null_dereference, pm)
           | Some u \<Rightarrow>
               let pm1 = (if (HostNameType u = Dns \<or> HostNameType u = Basic) \<and> ep \<noteq> []
                          then pm\<lparr>m_selectedHost := Host u @ ep\<rparr> else pm);
                   pm2 = emit (Note (''Established connection to '' @ m_selectedHost pm1)) pm1;
                   pm3 = pm2\<lparr>m_currentWp := (m_currentWp pm2)\<lparr>job := [], header := 0\<rparr>\<rparr>;
                   pm4 = (if get_ergodicity (farm pm3) = 1 then emit FarmShuffle pm3 else pm3);
                   pm5 = (if m_activeConnectionIdx pm4 \<noteq> 0 \<and> poolFailoverTimeout (m_Settings pm4) \<noteq> 0
                          then pm4\<lparr>m_failovertimer := Some (poolFailoverTimeout (m_Settings pm4))\<rparr>
                          else pm4\<lparr>m_failovertimer := None\<rparr>);
                   pm6 = (if \<not> isMining (farm pm5)
                          then Farm_start (emit (Note ''Spinning up miners...'') pm5)
                          else if paused (farm pm5)
                          then Farm_resume (emit (Note ''Resume mining ...'') pm5)
                          else pm5);
                   pm7 = (if reportHashrate (m_Settings pm6)
                          then pm6\<lparr>m_submithrtimer := Some (hashRateInterval (m_Settings pm6))\<rparr>
                          else pm6)
               in Inr (pm7\<lparr>m_async_pending := False\<rparr>)))"

text \<open>\<open>onDisconnected\<close>: the stopping path clears \<open>m_running\<close>, the other posts a rotate.\<close>

definition onDisconnected :: "PoolManager \<Rightarrow> outcome" where
  "onDisconnected pm =
     (let pm1 = emit (Note (''Disconnected from '' @ m_selectedHost pm)) pm in
      case p_client pm1 of
        None \<Rightarrow> Inl (null_dereference, pm1)
      | Some c \<Rightarrow>
          let pm2 = pm1\<lparr>p_client := Some (c\<lparr>m_conn := None\<rparr>),
                        m_currentWp := (m_currentWp pm1)\<lparr>header := 0\<rparr>,
                        m_failovertimer := None, m_submithrtimer := None\<rparr>
          in
          if m_stopping pm2 then
            let pm3 = (if isMining (farm pm2)
                       then Farm_stop (emit (Note ''Shutting down miners...'') pm2) else pm2)
            in Inr (pm3\<lparr>m_running := False\<rparr>)
          else
            let pm3 = Farm_pause (emit (Note ''No connection. Suspend mining ...'')
                                    (pm2\<lparr>m_async_pending := True\<rparr>))
            in Inr (pm3\<lparr>posted := posted pm3 @ [RotateConnect]\<rparr>))"

text \<open>\<open>ethash::kEpoch_length\<close>\<close>

definition kEpoch_length :: "32 word" where
  "kEpoch_length = 7500"

text \<open>
  \<open>showMiningAt\<close>: the log line carries the epoch and the effective boundary (from which
  the logged difficulty is computed); \<open>epoch.value()\<close> throws on an empty optional.
\<close>

definition showMiningAt :: "PoolManager \<Rightarrow> outcome" where
  "showMiningAt pm =
     (if \<not> WorkPackage_bool (m_currentWp pm) then Inr pm
      else
        case epoch (m_currentWp pm) of
          None \<Rightarrow> Inl (bad_optional_access, pm)
        | Some e \<Rightarrow> Inr (emit (NoteMiningAt e (get_boundary (m_currentWp pm))) pm))"

text \<open>
  \<open>onWorkReceived\<close>, from \<open>// Save package\<close> on: \<open>wp\<close> is the package with its epoch
  filled in, \<open>newEpoch\<close> and \<open>newDiff\<close> the two flags computed before.
\<close>

definition save_package :: "PoolManager \<Rightarrow> WorkPackage \<Rightarrow> bool \<Rightarrow> bool \<Rightarrow> outcome" where
  "save_package pm wp newEpoch newDiff =
     (let pm1 = pm\<lparr>m_currentWp := wp\<rparr>;
          pm2 = (if newEpoch then pm1\<lparr>m_epochChanges := m_epochChanges pm1 + 1\<rparr> else pm1)
      in
      case (if newDiff \<or> newEpoch then showMiningAt pm2 else Inr pm2) of
        Inl x \<Rightarrow> Inl x
      | Inr pm3 \<Rightarrow>
          let pm4 = emit (NoteJob (header (m_currentWp pm3)) (block (m_currentWp pm3))
                            (m_selectedHost pm3)) pm3
          in Inr (emit (FarmSetWork (m_currentWp pm4)) pm4))"

text \<open>
  \<open>onWorkReceived\<close>. \<open>e\<close> is \<open>wp.epoch.value()\<close> after the \<open>emplace\<close>: the epoch the
  package came with, or \<open>block / kEpoch_length\<close> in 32-bit unsigned arithmetic.
  \<open>m_currentWp.epoch.value()\<close> is read only when \<open>m_currentWp\<close> is present.
\<close>

definition onWorkReceived :: "PoolManager \<Rightarrow> WorkPackage \<Rightarrow> outcome" where
  "onWorkReceived pm wp0 =
     (if \<not> WorkPackage_bool wp0 then Inr (emit (Warn ''Invalid work package received'') pm)
      else
        case block wp0 of
          None \<Rightarrow> Inr (emit (Warn ''Invalid work package received'') pm)
        | Some b \<Rightarrow>
            let e = (case epoch wp0 of None \<Rightarrow> b div kEpoch_length | Some e0 \<Rightarrow> e0);
                wp = wp0\<lparr>epoch := Some e\<rparr>
            in
            if \<not> WorkPackage_bool (m_currentWp pm) then save_package pm wp True True
            else
              (case epoch (m_currentWp pm) of
                None \<Rightarrow> Inl (bad_optional_access, pm)
              | Some e_cur \<Rightarrow>
                  save_package pm wp (e_cur \<noteq> e)
                    (get_boundary (m_currentWp pm) \<noteq> get_boundary wp)))"

subsection \<open>stop\<close>

text \<open>What the io thread runs for a posted handler.\<close>

definition run_handler :: "handler \<Rightarrow> PoolManager \<Rightarrow> outcome" where
  "run_handler h pm =
     (case h of RotateConnect \<Rightarrow> rotateConnect pm | ClientDisconnected \<Rightarrow> onDisconnected pm)"

text \<open>
  The polling loop of \<open>stop()\<close>: \<open>while (m_running) sleep_for(500ms)\<close>. During each sleep
  the io thread runs the next handler queued on the strand. With nothing
  queued and \<open>m_running\<close> still set the loop never ends: the result is \<open>None\<close>.
\<close>

partial_function (option) stop_wait :: "PoolManager \<Rightarrow> outcome option" where
  "stop_wait pm =
     (if m_running pm then
        (case posted pm of
           [] \<Rightarrow> stop_wait pm
         | h # hs \<Rightarrow>
             (case run_handler h (pm\<lparr>posted := hs\<rparr>) of
                Inl x \<Rightarrow> Some (Inl x)
              | Inr pm' \<Rightarrow> stop_wait pm'))
      else Some (Inr pm))"

text \<open>\<open>PoolManager::stop()\<close>; \<open>None\<close> when the call never returns.\<close>

definition stop :: "PoolManager \<Rightarrow> outcome option" where
  "stop pm =
     (if m_running pm then
        let pm1 = pm\<lparr>m_async_pending := True, m_stopping := True\<rparr> in
        if client_isConnected pm1 then
          (case client_disconnect pm1 of
             Inl x \<Rightarrow> Some (Inl x)
           | Inr pm2 \<Rightarrow>
               (case stop_wait pm2 of
                  None \<Rightarrow> None
                | Some (Inl x) \<Rightarrow> Some (Inl x)
                | Some (Inr pm3) \<Rightarrow> Some (Inr (pm3\<lparr>p_client := None\<rparr>))))
        else
          let pm2 = pm1\<lparr>m_failovertimer := None, m_submithrtimer := None\<rparr> in
          Some (Inr (if isMining (farm pm2)
                     then Farm_stop (emit (Note ''Shutting down miners...'') pm2) else pm2))
      else Some (Inr pm))"

subsection \<open>Selecting the active connection\<close>

text \<open>
  \<open>setActiveConnectionCommon\<close>; \<open>spurious\<close> is whether the weak compare-and-swap fails
  spuriously in this call.
\<close>

definition setActiveConnectionCommon :: "PoolManager \<Rightarrow> bool \<Rightarrow> 32 word \<Rightarrow> outcome" where
  "setActiveConnectionCommon pm spurious idx =
     (case compare_exchange_weak spurious (m_async_pending pm) False True of
        (False, v) \<Rightarrow>
          Inl (runtime_error ''Outstanding operations. Retry ...'', pm\<lparr>m_async_pending := v\<rparr>)
      | (True, v) \<Rightarrow>
          let pm1 = pm\<lparr>m_async_pending := v\<rparr> in
          if idx \<noteq> m_activeConnectionIdx pm1 then
            client_disconnect
              (pm1\<lparr>m_connectionSwitches := m_connectionSwitches pm1 + 1,
                   m_activeConnectionIdx := idx, m_connectionAttempt := 0\<rparr>)
          else Inr (pm1\<lparr>m_async_pending := False\<rparr>))"

text \<open>\<open>setActiveConnection(unsigned int idx)\<close>\<close>

definition setActiveConnection :: "PoolManager \<Rightarrow> bool \<Rightarrow> 32 word \<Rightarrow> outcome" where
  "setActiveConnection pm spurious idx =
     (if length (connections (m_Settings pm)) \<le> unat idx
      then Inl (runtime_error ''Index out-of bounds.'', pm)
      else setActiveConnectionCommon pm spurious idx)"



subsection \<open>Observers\<close>



section \<open>CUDAMiner: the search on one job\<close>

text \<open>\<open>struct CUSettings\<close> (with the device list of \<open>MinerSettings\<close>).\<close>

record CUSettings =
  devices :: "32 word list"
  streams :: "32 word"
  schedule :: "32 word"
  gridSize :: "32 word"
  blockSize :: "32 word"
  parallelHash :: "32 word"

text \<open>
  One \<open>cuLaunchKernel\<close>: the stream, and the arguments \<open>start_nonce\<close>, \<open>current_header\<close>,
  \<open>m_current_target\<close> and the index of the kernel slot used.
\<close>

datatype kernel_launch = Launch nat "64 word" h256 "64 word" nat

text \<open>
  The members of \<open>CUDAMiner\<close> that \<open>search\<close> touches, the two device constants written
  by \<open>set_header\<close> and \<open>set_target\<close>, and what the miner has done so far: its log, the
  kernels launched, the solutions handed to \<open>Farm::submitProof\<close> and the calls of
  \<open>updateHashRate\<close>. CUDA runtime calls are taken to succeed.
\<close>

record CUDAMiner =
  m_settings :: CUSettings
  m_batch_size :: "32 word"
  m_streams_batch_size :: "32 word"
  m_current_target :: "64 word"
  m_kernelExecIx :: nat
  m_index :: "32 word"
  m_new_work :: bool
  d_header :: h256
  d_target :: "64 word"
  cudalog :: "string list"
  launches :: "kernel_launch list"
  proofs :: "Solution list"
  hashrate_updates :: nat

text \<open>
  What the other threads and the device show the miner during a search, by round of the
  \<open>while (!done)\<close> loop and stream: \<open>m_new_work.load() || paused()\<close> at the top of a
  round, \<open>shouldStop()\<close> after each stream synchronisation and at the end of the round,
  the result buffer of the stream (\<open>count\<close>, and \<open>gid\<close> and \<open>mix\<close> of each slot) and the
  steady clock when a solution is built.
\<close>

record gpu_env =
  new_work_or_paused :: "nat \<Rightarrow> bool"
  shouldStop_stream :: "nat \<Rightarrow> nat \<Rightarrow> bool"
  shouldStop_round :: "nat \<Rightarrow> bool"
  buffer_count :: "nat \<Rightarrow> nat \<Rightarrow> 32 word"
  buffer_result :: "nat \<Rightarrow> nat \<Rightarrow> nat \<Rightarrow> 32 word \<times> h256"
  steady_clock :: "nat \<Rightarrow> nat \<Rightarrow> nat \<Rightarrow> nat"

definition MAX_SEARCH_RESULTS :: "32 word" where
  "MAX_SEARCH_RESULTS = 4"

text \<open>
  \<open>workLoop\<close>: \<open>(uint64_t)(u64)((u256)w.get_boundary() >> 192)\<close>, the target handed to
  \<open>search\<close>.
\<close>

definition upper64OfBoundary :: "WorkPackage \<Rightarrow> 64 word" where
  "upper64OfBoundary w = ucast (drop_bit 192 (get_boundary w))"

definition launch_kernel :: "CUDAMiner \<Rightarrow> nat \<Rightarrow> 64 word \<Rightarrow> h256 \<Rightarrow> CUDAMiner" where
  "launch_kernel m current_index start_nonce current_header =
     m\<lparr>launches := launches m @
          [Launch current_index start_nonce current_header (m_current_target m) (m_kernelExecIx m)]\<rparr>"

text \<open>
  The priming loop over the streams still to visit: one launch each, \<open>start_nonce\<close>
  advanced by \<open>m_batch_size\<close> (widened to 64 bits) after each.
\<close>

fun prime_streams :: "CUDAMiner \<Rightarrow> h256 \<Rightarrow> 64 word \<Rightarrow> nat list \<Rightarrow> CUDAMiner \<times> 64 word" where
  "prime_streams m current_header start_nonce [] = (m, start_nonce)"
| "prime_streams m current_header start_nonce (current_index # rest) =
     prime_streams (launch_kernel m current_index start_nonce current_header) current_header
       (start_nonce + ucast (m_batch_size m)) rest"

text \<open>
  The inner \<open>for\<close> loop of round \<open>r\<close> over the streams still to visit, on the miner, the
  running \<open>start_nonce\<close> and the \<open>done\<close> flag.
\<close>

fun process_streams ::
  "gpu_env \<Rightarrow> nat \<Rightarrow> WorkPackage \<Rightarrow> h256 \<Rightarrow> nat list \<Rightarrow> CUDAMiner \<times> 64 word \<times> bool
     \<Rightarrow> CUDAMiner \<times> 64 word \<times> bool" where
  "process_streams env r w current_header [] st = st"
| "process_streams env r w current_header (current_index # rest) (m, start_nonce, done) =
     (let stop = shouldStop_stream env r current_index;
          m1 = (if stop then m\<lparr>m_new_work := False\<rparr> else m);
          done1 = (done \<or> stop);
          found_count = min (buffer_count env r current_index) MAX_SEARCH_RESULTS;
          found = map (buffer_result env r current_index) [0..<unat found_count];
          m2 = (if \<not> done1 then launch_kernel m1 current_index start_nonce current_header else m1);
          nonce_base = start_nonce - ucast (m_streams_batch_size m2);
          sols = map (\<lambda>i. \<lparr> nonce = nonce_base + ucast (fst (found ! i)),
                              mixHash = snd (found ! i), work = w,
                              tstamp = steady_clock env r current_index i,
                              midx = m_index m2 \<rparr>) [0..<length found];
          m3 = m2\<lparr>proofs := proofs m2 @ sols\<rparr>
      in process_streams env r w current_header rest
           (m3, start_nonce + ucast (m_batch_size m3), done1))"

text \<open>
  The \<open>while (!done)\<close> loop from round \<open>r\<close> on, with at most \<open>fuel\<close> rounds; \<open>None\<close> when
  the rounds are used up before the loop ends.
\<close>

fun search_rounds ::
  "gpu_env \<Rightarrow> nat \<Rightarrow> nat \<Rightarrow> WorkPackage \<Rightarrow> h256 \<Rightarrow> CUDAMiner \<Rightarrow> 64 word \<Rightarrow> bool
     \<Rightarrow> CUDAMiner option" where
  "search_rounds env 0 r w current_header m start_nonce done = (if done then Some m else None)"
| "search_rounds env (Suc fuel) r w current_header m start_nonce done =
     (if done then Some m
      else
        case process_streams env r w current_header [0..<unat (streams (m_settings m))]
               (m, start_nonce, done \<or> new_work_or_paused env r) of
          (m1, start_nonce1, done1) \<Rightarrow>
            let m2 = m1\<lparr>hashrate_updates := Suc (hashrate_updates m1)\<rparr> in
            if shouldStop_round env r then Some (m2\<lparr>m_new_work := False\<rparr>)
            else search_rounds env fuel (Suc r) w current_header m2 start_nonce1 done1)"

text \<open>
  \<open>CUDAMiner::search(header, target, start_nonce, w)\<close>: the header and (when it
  changed) the target go to the device; a target of \<open>UINT64_MAX\<close> returns at once;
  otherwise the streams are primed and the rounds run.
\<close>

definition search ::
  "gpu_env \<Rightarrow> nat \<Rightarrow> CUDAMiner \<Rightarrow> h256 \<Rightarrow> 64 word \<Rightarrow> 64 word \<Rightarrow> WorkPackage
     \<Rightarrow> CUDAMiner option" where
  "search env fuel m hdr target start_nonce w =
     (let m1 = m\<lparr>d_header := hdr\<rparr>;
          m2 = (if m_current_target m1 \<noteq> target
                then m1\<lparr>d_target := target, m_current_target := target\<rparr> else m1)
      in
      if target = - 1
      then Some (m2\<lparr>cudalog := cudalog m2 @ [''Difficulty too low for GPU. Skipping job'']\<rparr>)
      else
        case prime_streams m2 hdr start_nonce [0..<unat (streams (m_settings m2))] of
          (m3, start_nonce3) \<Rightarrow> search_rounds env fuel 0 w hdr m3 start_nonce3 False)"

section \<open>Concrete managers, packages and miners\<close>

definition example_uri :: URI where
  "example_uri =
     \<lparr> str = ''stratum+tcp://pool.test:3333'', Host = ''pool.test'', Port = 3333,
       Family = STRATUM, HostNameType = Dns, IsUnrecoverable = False \<rparr>"

definition exit_uri :: URI where
  "exit_uri =
     \<lparr> str = ''stratum+tcp://exit:3333'', Host = ''exit'', Port = 3333,
       Family = STRATUM, HostNameType = Basic, IsUnrecoverable = False \<rparr>"

definition example_settings :: PoolSettings where
  "example_settings =
     \<lparr> connections = [example_uri], getWorkPollInterval = 1000, noWorkTimeout = 100000,
       noResponseTimeout = 2, poolFailoverTimeout = 0, reportHashrate = False,
       hashRateInterval = 60, hashRateId = ''0x00'', connectionMaxRetries = 3,
       benchmarkBlock = 0, benchmarkDiff = 1 \<rparr>"

definition example_farm :: Farm where
  "example_farm = \<lparr> isMining = False, paused = False, get_ergodicity = 0 \<rparr>"

text \<open>A manager just constructed, and the same after \<open>start()\<close>.\<close>

definition fresh_manager :: PoolManager where
  "fresh_manager = PoolManager_new example_settings example_farm"

definition started_manager :: PoolManager where
  "started_manager = start fresh_manager"

text \<open>A running manager whose client is connected to the only endpoint.\<close>

definition connected_client :: PoolClient where
  "connected_client =
     \<lparr> variant = EthStratumClient 100000 2, m_connected = True,
       m_conn = Some example_uri, handlers_bound = True \<rparr>"

definition connected_manager :: PoolManager where
  "connected_manager =
     started_manager\<lparr>m_async_pending := False, m_connectionAttempt := 1,
       m_selectedHost := ''pool.test:3333'', p_client := Some connected_client,
       farm := \<lparr> isMining = True, paused = False, get_ergodicity = 0 \<rparr>, posted := []\<rparr>"

definition example_wp :: WorkPackage where
  "example_wp =
     WorkPackage_default\<lparr>job := ''j1'', header := 17, boundary := 255, block := Some 82500\<rparr>"

definition example_solution :: Solution where
  "example_solution =
     \<lparr> nonce = 57005, mixHash = 48879, work = example_wp, tstamp = 0, midx = 0 \<rparr>"

text \<open>A single endpoint whose host is the \<open>exit\<close> sentinel, retries used up.\<close>

definition exit_manager :: PoolManager where
  "exit_manager =
     started_manager\<lparr>m_Settings := example_settings\<lparr>connections := [exit_uri]\<rparr>,
       m_connectionAttempt := 3\<rparr>"

text \<open>The single real endpoint, retries used up, no client yet.\<close>

definition retry_manager :: PoolManager where
  "retry_manager = started_manager\<lparr>m_connectionAttempt := 3\<rparr>"

text \<open>A connected manager whose attempt counter is past the limit of 3.\<close>

definition busy_manager :: PoolManager where
  "busy_manager = connected_manager\<lparr>m_connectionAttempt := 5\<rparr>"

text \<open>
  A connected manager at work on \<open>example_wp\<close> (epoch 11), and the next job of the same
  epoch.
\<close>

definition working_manager :: PoolManager where
  "working_manager =
     connected_manager\<lparr>m_currentWp := example_wp\<lparr>epoch := Some 11\<rparr>, m_epochChanges := 1\<rparr>"

definition next_wp :: WorkPackage where
  "next_wp = example_wp\<lparr>job := ''j2'', header := 18\<rparr>"

text \<open>A package whose boundary is all ones: the easiest target there is.\<close>

definition easy_wp :: WorkPackage where
  "easy_wp = example_wp\<lparr>boundary := - 1\<rparr>"

definition example_miner :: CUDAMiner where
  "example_miner =
     \<lparr> m_settings = \<lparr> devices = [0], streams = 2, schedule = 4, gridSize = 256,
                       blockSize = 512, parallelHash = 4 \<rparr>,
       m_batch_size = 131072, m_streams_batch_size = 262144, m_current_target = 0,
       m_kernelExecIx = 0, m_index = 0, m_new_work = False, d_header = 0, d_target = 0,
       cudalog = [], launches = [], proofs = [], hashrate_updates = 0 \<rparr>"

text \<open>An environment in which new work is waiting at the first round and nothing is found.\<close>

definition quiet_env :: gpu_env where
  "quiet_env =
     \<lparr> new_work_or_paused = (\<lambda>r. True), shouldStop_stream = (\<lambda>r i. False),
       shouldStop_round = (\<lambda>r. False), buffer_count = (\<lambda>r i. 0),
       buffer_result = (\<lambda>r i k. (0, 0)), steady_clock = (\<lambda>r i k. 0) \<rparr>"

section \<open>The manager's invariant on its current work package\<close>

text \<open>
  \<open>m_currentWp\<close> is written by the constructor and by three callbacks only. Whenever
  it is present (its header is not zero) its epoch has a value: \<open>onWorkReceived\<close> stores
  packages with the epoch filled in, the other writers clear the header.
\<close>

definition wp_has_epoch :: "PoolManager \<Rightarrow> bool" where
  "wp_has_epoch pm = (WorkPackage_bool (m_currentWp pm) \<longrightarrow> epoch (m_currentWp pm) \<noteq> None)"

section \<open>Properties of work packages\<close>

lemma get_boundary_unat_max:
  "unat (get_boundary wp) = max (unat (boundary wp)) (unat (block_boundary wp))"
proof (cases "block_boundary wp = 0")
  case True
  then show ?thesis by (simp add: get_boundary_def)
next
  case False
  show ?thesis
  proof (cases "boundary wp < block_boundary wp")
    case True
    with False show ?thesis
      by (simp add: get_boundary_def word_less_nat_alt max_def)
  next
    case ge: False
    then have "unat (block_boundary wp) \<le> unat (boundary wp)"
      by (simp add: word_less_nat_alt)
    with False ge show ?thesis
      by (simp add: get_boundary_def max_def)
  qed
qed

text \<open>
  Claim C2. For every work package, \<open>get_boundary\<close> is the numeric maximum of \<open>boundary\<close>
  and \<open>block_boundary\<close>, both read as 256-bit unsigned integers (\<open>unat\<close>), and it is one
  of the two fields; with \<open>block_boundary\<close> zero (unset) the result is \<open>boundary\<close>.
\<close>

theorem get_boundary_is_max:
  "unat (get_boundary wp) = max (unat (boundary wp)) (unat (block_boundary wp))
   \<and> get_boundary wp = max (boundary wp) (block_boundary wp)
   \<and> get_boundary (wp\<lparr>block_boundary := 0\<rparr>) = boundary wp"
proof -
  have "get_boundary wp = max (boundary wp) (block_boundary wp)"
    using get_boundary_unat_max [of wp]
    by (metis max_def word_le_nat_alt word_unat_eq_iff)
  moreover have "get_boundary (wp\<lparr>block_boundary := 0\<rparr>) = boundary wp"
    by (simp add: get_boundary_def)
  ultimately show ?thesis
    using get_boundary_unat_max [of wp] by simp
qed

section \<open>Evaluating the concrete managers\<close>

lemmas manager_examples =
  fresh_manager_def started_manager_def connected_manager_def connected_client_def
  exit_manager_def retry_manager_def busy_manager_def working_manager_def
  PoolManager_new_def start_def
  example_settings_def example_uri_def exit_uri_def example_farm_def



section \<open>Solution forwarding\<close>

text \<open>
  Claim C8. For every solution the farm reports, \<open>submitSolution\<close> is called on the
  client exactly when the client pointer is set and \<open>isConnected()\<close> holds; otherwise the
  only thing that happens is the "wasted" log line. In both cases nothing but the list of
  effects changes: no handler is posted, the farm (and with it the accounting) is as
  before, and no member of the manager holds the solution for later. The callback
  returns \<open>false\<close>.
\<close>

theorem onSolutionFound_forwards_iff_connected:
  "fst (onSolutionFound pm sol) =
     pm\<lparr>effects := effects pm @
          [if client_isConnected pm then ClientSubmitSolution sol else NoteWasted (nonce sol)]\<rparr>
   \<and> (ClientSubmitSolution sol
          \<in> set (drop (length (effects pm)) (effects (fst (onSolutionFound pm sol))))
        \<longleftrightarrow> (\<exists>c. p_client pm = Some c \<and> m_connected c))
   \<and> farm (fst (onSolutionFound pm sol)) = farm pm
   \<and> posted (fst (onSolutionFound pm sol)) = posted pm
   \<and> snd (onSolutionFound pm sol) = False"
  by (auto simp: onSolutionFound_def emit_def client_isConnected_def split: option.splits)

theorem onSolutionFound_forwards_iff_connected_witness:
  "fst (onSolutionFound connected_manager example_solution) =
     connected_manager\<lparr>effects := [ClientSubmitSolution example_solution]\<rparr>
   \<and> fst (onSolutionFound started_manager example_solution) =
     started_manager\<lparr>effects := [NoteWasted 57005]\<rparr>"
proof -
  have "client_isConnected connected_manager" and "\<not> client_isConnected started_manager"
    by (simp_all add: client_isConnected_def manager_examples)
  moreover have "effects connected_manager = []" and "effects started_manager = []"
    by (simp_all add: manager_examples)
  moreover have "nonce example_solution = 57005"
    by (simp add: example_solution_def)
  ultimately show ?thesis
    using onSolutionFound_forwards_iff_connected [of connected_manager example_solution]
      onSolutionFound_forwards_iff_connected [of started_manager example_solution]
    by simp
qed

section \<open>start\<close>

text \<open>
  Claim C3, as amended. \<open>start()\<close> tests no flag and cannot fail. Called on a manager
  that is already running it leaves \<open>m_running\<close> set, sets \<open>m_async_pending\<close>, adds one to
  \<open>m_connectionSwitches\<close> (modulo \<open>2^32\<close>) and posts one more \<open>rotateConnect\<close>.
\<close>

theorem start_on_running_manager:
  "m_running pm \<Longrightarrow>
     m_running (start pm) \<and> m_async_pending (start pm)
     \<and> m_connectionSwitches (start pm) = m_connectionSwitches pm + 1
     \<and> posted (start pm) = posted pm @ [RotateConnect]"
  by (simp add: start_def)

theorem start_on_running_manager_witness:
  "m_running started_manager
   \<and> m_running (start started_manager) \<and> m_async_pending (start started_manager)
   \<and> m_connectionSwitches (start started_manager) = 2
   \<and> posted (start started_manager) = [RotateConnect, RotateConnect]"
proof -
  have r: "m_running started_manager"
    by (simp add: manager_examples)
  have "m_connectionSwitches started_manager = 1" and "posted started_manager = [RotateConnect]"
    by (simp_all add: manager_examples)
  with r start_on_running_manager [OF r] show ?thesis
    by simp
qed

text \<open>
  The claim as stated fails on the manager obtained by one \<open>start()\<close>: a second call
  returns a different state, with the counter at 2 and two rotations queued.
\<close>

theorem start_twice_counterexample:
  "m_running started_manager
   \<and> start started_manager \<noteq> started_manager
   \<and> m_connectionSwitches started_manager = 1
   \<and> m_connectionSwitches (start started_manager) = 2
   \<and> posted started_manager = [RotateConnect]
   \<and> posted (start started_manager) = [RotateConnect, RotateConnect]"
proof -
  have "m_connectionSwitches started_manager = 1"
    and "m_connectionSwitches (start started_manager) = 2"
    and "m_running started_manager"
    and "posted started_manager = [RotateConnect]"
    and "posted (start started_manager) = [RotateConnect, RotateConnect]"
    by (simp_all add: manager_examples)
  note facts = this
  have "start started_manager \<noteq> started_manager"
  proof
    assume "start started_manager = started_manager"
    then have "posted (start started_manager) = posted started_manager"
      by simp
    with facts show False
      by simp
  qed
  with facts show ?thesis
    by simp
qed

section \<open>setActiveConnection by index\<close>

text \<open>
  Claim C4, as amended. While \<open>m_async_pending\<close> is set, \<open>setActiveConnection(idx)\<close>
  throws for every index and leaves the whole manager as it was (so \<open>active_idx\<close>, the
  attempt counter and \<open>connection_switches\<close> are not mutated). The bounds test comes
  first: an index past the end of the list throws "Index out-of bounds.", an index
  within bounds throws the busy error "Outstanding operations. Retry ...".
\<close>

theorem setActiveConnection_pending_fails:
  "m_async_pending pm \<Longrightarrow>
     setActiveConnection pm spurious idx =
       Inl (runtime_error
              (if length (connections (m_Settings pm)) \<le> unat idx
               then ''Index out-of bounds.'' else ''Outstanding operations. Retry ...''),
            pm)"
  by (simp add: setActiveConnection_def setActiveConnectionCommon_def compare_exchange_weak_def)

theorem setActiveConnection_pending_fails_witness:
  "m_async_pending started_manager
   \<and> setActiveConnection started_manager False 0 =
       Inl (runtime_error ''Outstanding operations. Retry ...'', started_manager)"
proof -
  have p: "m_async_pending started_manager"
    by (simp add: manager_examples)
  have "length (connections (m_Settings started_manager)) = 1"
    by (simp add: manager_examples)
  with p setActiveConnection_pending_fails [OF p, of False 0] show ?thesis
    by simp
qed

text \<open>
  The claim as stated fails for an index past the end: with one endpoint configured and
  \<open>m_async_pending\<close> set, index 5 is refused by the bounds test, not by the busy test.
\<close>

theorem setActiveConnection_pending_counterexample:
  "m_async_pending started_manager
   \<and> setActiveConnection started_manager False 5 =
       Inl (runtime_error ''Index out-of bounds.'', started_manager)
   \<and> setActiveConnection started_manager False 5 \<noteq>
       Inl (runtime_error ''Outstanding operations. Retry ...'', started_manager)"
  by (simp add: setActiveConnection_def manager_examples)

section \<open>rotateConnect with a single endpoint\<close>

text \<open>
  Claim C5, as amended. When \<open>rotateConnect\<close> runs with no connected client, with the
  attempt counter at or above \<open>connectionMaxRetries\<close>, and with a connection list of
  exactly one endpoint that is neither unrecoverable nor the \<open>exit\<close> sentinel, it returns
  normally and: the attempt counter was reset to 0 and then counted the new attempt, so
  it is 1; the active index is 0 (unchanged whenever it was within bounds); the list is
  unchanged and the same endpoint is retried, through a fresh client on which
  \<open>connect()\<close> is called; \<open>connection_switches\<close> is not incremented; the manager keeps
  running.
\<close>

theorem rotateConnect_single_endpoint_retry:
  assumes "\<not> client_isConnected pm"
    and "connections (m_Settings pm) = [u]"
    and "\<not> IsUnrecoverable u"
    and "Host u \<noteq> ''exit''"
    and "connectionMaxRetries (m_Settings pm) \<le> m_connectionAttempt pm"
  shows "\<exists>pm'. rotateConnect pm = Inr pm'
     \<and> m_connectionAttempt pm' = 1
     \<and> m_activeConnectionIdx pm' = 0
     \<and> m_connectionSwitches pm' = m_connectionSwitches pm
     \<and> connections (m_Settings pm') = [u]
     \<and> p_client pm' = Some ((new_client (m_Settings pm) u)\<lparr>m_conn := Some u\<rparr>)
     \<and> effects pm' = effects pm @
           [Note (''Selected pool '' @ Host u @ '':'' @ to_string (unat (Port u))),
            ClientConnect u]
     \<and> m_running pm' = m_running pm"
proof (cases "m_activeConnectionIdx pm = 0")
  case True
  with assms show ?thesis
    by (simp add: rotateConnect_def Let_def vector_at_def emit_def)
next
  case False
  then have "1 \<le> unat (m_activeConnectionIdx pm)"
    by (simp add: Suc_le_eq unat_gt_0)
  with assms show ?thesis
    by (simp add: rotateConnect_def Let_def vector_at_def emit_def)
qed

theorem rotateConnect_single_endpoint_retry_witness:
  "\<not> client_isConnected retry_manager
   \<and> connections (m_Settings retry_manager) = [example_uri]
   \<and> \<not> IsUnrecoverable example_uri
   \<and> Host example_uri \<noteq> ''exit''
   \<and> connectionMaxRetries (m_Settings retry_manager) \<le> m_connectionAttempt retry_manager
   \<and> (\<exists>pm'. rotateConnect retry_manager = Inr pm'
         \<and> m_connectionAttempt pm' = 1
         \<and> m_activeConnectionIdx pm' = 0
         \<and> m_connectionSwitches pm' = 1
         \<and> connections (m_Settings pm') = [example_uri]
         \<and> m_running pm')"
proof -
  have h: "\<not> client_isConnected retry_manager"
      "connections (m_Settings retry_manager) = [example_uri]"
      "\<not> IsUnrecoverable example_uri"
      "Host example_uri \<noteq> ''exit''"
      "connectionMaxRetries (m_Settings retry_manager) \<le> m_connectionAttempt retry_manager"
    by (simp_all add: client_isConnected_def manager_examples)
  have "m_connectionSwitches retry_manager = 1" and "m_running retry_manager"
    by (simp_all add: manager_examples)
  with h rotateConnect_single_endpoint_retry [OF h] show ?thesis
    by auto
qed

text \<open>
  The claim as stated fails in two places. With the single endpoint \<open>exit\<close> and the
  retries used up, \<open>rotateConnect\<close> resets the counter but retries nothing: no client is
  made, \<open>m_running\<close> is cleared and the termination signal is raised. And while the
  client is connected \<open>rotateConnect\<close> returns at once, the counter still past the limit.
\<close>

theorem rotateConnect_single_endpoint_counterexample:
  "connections (m_Settings exit_manager) = [exit_uri]
   \<and> \<not> IsUnrecoverable exit_uri
   \<and> connectionMaxRetries (m_Settings exit_manager) \<le> m_connectionAttempt exit_manager
   \<and> m_running exit_manager
   \<and> (\<exists>pm'. rotateConnect exit_manager = Inr pm'
         \<and> \<not> m_running pm' \<and> p_client pm' = None
         \<and> effects pm' = [Note '''exit' failover just got hit. Exiting...'', RaiseSIGTERM])
   \<and> connections (m_Settings busy_manager) = [example_uri]
   \<and> \<not> IsUnrecoverable example_uri
   \<and> connectionMaxRetries (m_Settings busy_manager) \<le> m_connectionAttempt busy_manager
   \<and> rotateConnect busy_manager = Inr busy_manager
   \<and> m_connectionAttempt busy_manager = 5"
  by (simp add: rotateConnect_def Let_def vector_at_def emit_def client_isConnected_def
        manager_examples)

section \<open>The invariant is kept\<close>

lemma wp_has_epoch_new: "wp_has_epoch (PoolManager_new settings f)"
  by (simp add: wp_has_epoch_def PoolManager_new_def WorkPackage_bool_def)

lemma wp_has_epoch_start: "wp_has_epoch pm \<Longrightarrow> wp_has_epoch (start pm)"
  by (simp add: wp_has_epoch_def start_def)

lemma wp_has_epoch_onSolutionFound:
  "wp_has_epoch pm \<Longrightarrow> wp_has_epoch (fst (onSolutionFound pm sol))"
  by (simp add: wp_has_epoch_def onSolutionFound_def emit_def)

text \<open>\<open>onConnected\<close> clears the header and the job, and keeps the epoch it finds.\<close>

lemma m_currentWp_emit [simp]: "m_currentWp (emit e pm) = m_currentWp pm"
  by (simp add: emit_def)

lemma m_currentWp_Farm [simp]:
  "m_currentWp (Farm_start pm) = m_currentWp pm"
  "m_currentWp (Farm_stop pm) = m_currentWp pm"
  "m_currentWp (Farm_pause pm) = m_currentWp pm"
  "m_currentWp (Farm_resume pm) = m_currentWp pm"
  by (simp_all add: Farm_start_def Farm_stop_def Farm_pause_def Farm_resume_def)

lemma onConnected_m_currentWp:
  assumes "onConnected pm ep = Inr pm'"
  shows "m_currentWp pm' = (m_currentWp pm)\<lparr>job := [], header := 0\<rparr>"
proof -
  from assms obtain c u where c: "p_client pm = Some c" and u: "m_conn c = Some u"
    by (auto simp: onConnected_def split: option.splits)
  define pm1 where "pm1 = (if (HostNameType u = Dns \<or> HostNameType u = Basic) \<and> ep \<noteq> []
                          then pm\<lparr>m_selectedHost := Host u @ ep\<rparr> else pm)"
  define pm2 where "pm2 = emit (Note (''Established connection to '' @ m_selectedHost pm1)) pm1"
  define pm3 where "pm3 = pm2\<lparr>m_currentWp := (m_currentWp pm2)\<lparr>job := [], header := 0\<rparr>\<rparr>"
  define pm4 where "pm4 = (if get_ergodicity (farm pm3) = 1 then emit FarmShuffle pm3 else pm3)"
  define pm5 where "pm5 = (if m_activeConnectionIdx pm4 \<noteq> 0 \<and> poolFailoverTimeout (m_Settings pm4) \<noteq> 0
                          then pm4\<lparr>m_failovertimer := Some (poolFailoverTimeout (m_Settings pm4))\<rparr>
                          else pm4\<lparr>m_failovertimer := None\<rparr>)"
  define pm6 where "pm6 = (if \<not> isMining (farm pm5)
                          then Farm_start (emit (Note ''Spinning up miners...'') pm5)
                          else if paused (farm pm5)
                          then Farm_resume (emit (Note ''Resume mining ...'') pm5)
                          else pm5)"
  define pm7 where "pm7 = (if reportHashrate (m_Settings pm6)
                          then pm6\<lparr>m_submithrtimer := Some (hashRateInterval (m_Settings pm6))\<rparr>
                          else pm6)"
  have "onConnected pm ep = Inr (pm7\<lparr>m_async_pending := False\<rparr>)"
    unfolding onConnected_def pm7_def pm6_def pm5_def pm4_def pm3_def pm2_def pm1_def
    by (simp only: c u option.case Let_def)
  with assms have "pm' = pm7\<lparr>m_async_pending := False\<rparr>"
    by simp
  then have "m_currentWp pm' = m_currentWp pm7" by simp
  also have "\<dots> = m_currentWp pm6" by (simp add: pm7_def)
  also have "\<dots> = m_currentWp pm5" by (simp add: pm6_def)
  also have "\<dots> = m_currentWp pm4" by (simp add: pm5_def)
  also have "\<dots> = m_currentWp pm3" by (simp add: pm4_def)
  also have "\<dots> = (m_currentWp pm2)\<lparr>job := [], header := 0\<rparr>" by (simp add: pm3_def)
  also have "m_currentWp pm2 = m_currentWp pm1" by (simp add: pm2_def)
  also have "m_currentWp pm1 = m_currentWp pm" by (simp add: pm1_def)
  finally show ?thesis .
qed

lemma wp_has_epoch_onConnected:
  "onConnected pm ep = Inr pm' \<Longrightarrow>
     wp_has_epoch pm' \<and> \<not> WorkPackage_bool (m_currentWp pm')
     \<and> epoch (m_currentWp pm') = epoch (m_currentWp pm)"
  by (simp add: onConnected_m_currentWp wp_has_epoch_def WorkPackage_bool_def)

lemma wp_has_epoch_onDisconnected:
  "onDisconnected pm = Inr pm' \<Longrightarrow> wp_has_epoch pm' \<and> \<not> WorkPackage_bool (m_currentWp pm')"
  by (auto simp: onDisconnected_def wp_has_epoch_def WorkPackage_bool_def Let_def emit_def
        Farm_stop_def Farm_pause_def split: option.splits if_splits)

lemma wp_has_epoch_onWorkReceived:
  "wp_has_epoch pm \<Longrightarrow> onWorkReceived pm wp = Inr pm' \<Longrightarrow> wp_has_epoch pm'"
  by (auto simp: onWorkReceived_def save_package_def showMiningAt_def wp_has_epoch_def
        WorkPackage_bool_def Let_def emit_def split: option.splits if_splits)

section \<open>onWorkReceived\<close>

text \<open>
  Claim C6. Let the manager satisfy its invariant (a present current package has an
  epoch). For every package \<open>wp\<close> delivered through \<open>onWorkReceived\<close>: if \<open>wp\<close> is empty
  (header zero) or has no block, the call only logs a warning, so \<open>current_wp\<close> and
  \<open>epoch_changes\<close> are unchanged and nothing is dispatched to the farm. Otherwise, with
  \<open>b\<close> the block of \<open>wp\<close>, the call returns, \<open>current_wp\<close> becomes \<open>wp\<close> with its own epoch
  or, when it has none, with \<open>b / 7500\<close>; \<open>epoch_changes\<close> grows by one exactly when
  there was no previous work or the previous package's epoch differs from the new one,
  and is unchanged otherwise; and the last effect is \<open>Farm.setWork\<close> on the new
  \<open>current_wp\<close>.
\<close>

theorem onWorkReceived_replaces_current_wp:
  assumes "wp_has_epoch pm"
  shows "(\<not> WorkPackage_bool wp \<or> block wp = None \<longrightarrow>
            onWorkReceived pm wp =
              Inr (pm\<lparr>effects := effects pm @ [Warn ''Invalid work package received'']\<rparr>))
       \<and> (WorkPackage_bool wp \<and> block wp = Some b \<longrightarrow>
            (\<exists>pm'. onWorkReceived pm wp = Inr pm'
               \<and> m_currentWp pm' =
                   wp\<lparr>epoch := Some (case epoch wp of None \<Rightarrow> b div 7500 | Some e \<Rightarrow> e)\<rparr>
               \<and> m_epochChanges pm' =
                   (if \<not> WorkPackage_bool (m_currentWp pm)
                       \<or> epoch (m_currentWp pm) \<noteq> epoch (m_currentWp pm')
                    then m_epochChanges pm + 1 else m_epochChanges pm)
               \<and> effects pm' \<noteq> []
               \<and> last (effects pm') = FarmSetWork (m_currentWp pm')))"
  using assms
  by (auto simp: onWorkReceived_def save_package_def showMiningAt_def Let_def emit_def
        wp_has_epoch_def WorkPackage_bool_def kEpoch_length_def split: option.splits)

theorem onWorkReceived_replaces_current_wp_witness:
  "wp_has_epoch fresh_manager
   \<and> onWorkReceived fresh_manager WorkPackage_default =
       Inr (fresh_manager\<lparr>effects := [Warn ''Invalid work package received'']\<rparr>)
   \<and> (\<exists>pm'. onWorkReceived fresh_manager example_wp = Inr pm'
         \<and> m_currentWp pm' = example_wp\<lparr>epoch := Some 11\<rparr>
         \<and> m_epochChanges pm' = 1
         \<and> last (effects pm') = FarmSetWork (example_wp\<lparr>epoch := Some 11\<rparr>))
   \<and> wp_has_epoch working_manager
   \<and> (\<exists>pm'. onWorkReceived working_manager next_wp = Inr pm'
         \<and> m_currentWp pm' = next_wp\<lparr>epoch := Some 11\<rparr>
         \<and> m_epochChanges pm' = 1
         \<and> last (effects pm') = FarmSetWork (next_wp\<lparr>epoch := Some 11\<rparr>))"
proof -
  have inv: "wp_has_epoch fresh_manager"
    unfolding fresh_manager_def by (rule wp_has_epoch_new)
  have empty: "\<not> WorkPackage_bool WorkPackage_default"
    by (simp add: WorkPackage_bool_def WorkPackage_default_def)
  have wp: "WorkPackage_bool example_wp \<and> block example_wp = Some 82500"
    "epoch example_wp = None"
    by (simp_all add: WorkPackage_bool_def example_wp_def WorkPackage_default_def)
  have fresh: "effects fresh_manager = []" "m_epochChanges fresh_manager = 0"
    "\<not> WorkPackage_bool (m_currentWp fresh_manager)"
    by (simp_all add: manager_examples WorkPackage_bool_def)
  have d: "(82500 :: 32 word) div 7500 = 11"
    by simp
  from onWorkReceived_replaces_current_wp [OF inv, of WorkPackage_default 0] empty fresh
  have one: "onWorkReceived fresh_manager WorkPackage_default =
       Inr (fresh_manager\<lparr>effects := [Warn ''Invalid work package received'']\<rparr>)"
    by simp
  from onWorkReceived_replaces_current_wp [OF inv, of example_wp 82500] wp fresh d
  have two: "\<exists>pm'. onWorkReceived fresh_manager example_wp = Inr pm'
         \<and> m_currentWp pm' = example_wp\<lparr>epoch := Some 11\<rparr>
         \<and> m_epochChanges pm' = 1
         \<and> last (effects pm') = FarmSetWork (example_wp\<lparr>epoch := Some 11\<rparr>)"
    by auto
  have working: "m_currentWp working_manager = example_wp\<lparr>epoch := Some 11\<rparr>"
    "m_epochChanges working_manager = 1"
    by (simp_all add: manager_examples)
  have inv': "wp_has_epoch working_manager"
    by (simp add: wp_has_epoch_def working)
  have nwp: "WorkPackage_bool next_wp \<and> block next_wp = Some 82500" "epoch next_wp = None"
    by (simp_all add: WorkPackage_bool_def next_wp_def example_wp_def WorkPackage_default_def)
  have cur: "WorkPackage_bool (example_wp\<lparr>epoch := Some 11\<rparr>)"
    by (simp add: WorkPackage_bool_def example_wp_def WorkPackage_default_def)
  from onWorkReceived_replaces_current_wp [OF inv', of next_wp 82500] nwp working cur d
  have three: "\<exists>pm'. onWorkReceived working_manager next_wp = Inr pm'
         \<and> m_currentWp pm' = next_wp\<lparr>epoch := Some 11\<rparr>
         \<and> m_epochChanges pm' = 1
         \<and> last (effects pm') = FarmSetWork (next_wp\<lparr>epoch := Some 11\<rparr>)"
    by auto
  from inv one two inv' three show ?thesis
    by blast
qed

text \<open>
  Without the invariant the comparison of the epochs reads an empty optional: a valid
  package arriving while a present \<open>current_wp\<close> has no epoch makes the callback throw.
\<close>

lemma onWorkReceived_without_invariant:
  "WorkPackage_bool wp \<Longrightarrow> block wp \<noteq> None \<Longrightarrow> \<not> wp_has_epoch pm \<Longrightarrow>
     onWorkReceived pm wp = Inl (bad_optional_access, pm)"
  by (auto simp: onWorkReceived_def wp_has_epoch_def Let_def split: option.splits)

section \<open>The observers\<close>



section \<open>setActiveConnection by connection string\<close>








section \<open>stop\<close>

lemmas stop_wait_induct = stop_wait.raw_induct [rotated -1, consumes 1, case_names step]

lemma stop_wait_not_running: "\<not> m_running pm \<Longrightarrow> stop_wait pm = Some (Inr pm)"
  by (subst stop_wait.simps) simp

text \<open>Whenever the polling loop ends without an exception, \<open>m_running\<close> is clear.\<close>

lemma stop_wait_returns:
  "stop_wait pm = Some r \<Longrightarrow> (case r of Inl x \<Rightarrow> True | Inr pm' \<Rightarrow> \<not> m_running pm')"
proof (induction rule: stop_wait_induct)
  case (step stop_wait' pm r)
  show ?case
  proof (cases "m_running pm")
    case False
    with step show ?thesis by auto
  next
    case True
    show ?thesis
    proof (cases "posted pm")
      case Nil
      with True step show ?thesis by simp
    next
      case (Cons h hs)
      show ?thesis
      proof (cases "run_handler h (pm\<lparr>posted := hs\<rparr>)")
        case (Inl x)
        with True Cons step show ?thesis by auto
      next
        case (Inr pm1)
        with True Cons step have "stop_wait' pm1 = Some r" by simp
        with step(1) show ?thesis by blast
      qed
    qed
  qed
qed

text \<open>
  The connected path of \<open>stop()\<close>: if the call returns, \<open>m_running\<close> is clear and the
  client is released; and it does return when nothing else is queued on the strand, the
  client's \<open>onDisconnected\<close> then being the handler that clears the flag and cancels both
  timers.
\<close>

lemma stop_connected_returns:
  assumes "m_running pm" and "client_isConnected pm" and "stop pm = Some (Inr pm')"
  shows "\<not> m_running pm' \<and> p_client pm' = None"
proof -
  from assms obtain pm2 pm3
    where "stop_wait pm2 = Some (Inr pm3)" and pm': "pm' = pm3\<lparr>p_client := None\<rparr>"
    by (auto simp: stop_def Let_def client_isConnected_def split: sum.splits option.splits)
  from stop_wait_returns [OF this(1)] pm' show ?thesis by simp
qed

lemma stop_connected_terminates:
  assumes "m_running pm" and "client_isConnected pm" and "posted pm = []"
  shows "\<exists>pm'. stop pm = Some (Inr pm') \<and> \<not> m_running pm' \<and> m_stopping pm'
     \<and> m_failovertimer pm' = None \<and> m_submithrtimer pm' = None \<and> p_client pm' = None
     \<and> \<not> isMining (farm pm')"
proof -
  from assms(2) obtain c where c: "p_client pm = Some c" "m_connected c"
    by (auto simp: client_isConnected_def split: option.splits)
  define pm2 where "pm2 = emit ClientDisconnect
     (pm\<lparr>m_async_pending := True, m_stopping := True,
         p_client := Some (c\<lparr>m_connected := False\<rparr>), posted := [ClientDisconnected]\<rparr>)"
  obtain pm3 where pm3: "run_handler ClientDisconnected (pm2\<lparr>posted := []\<rparr>) = Inr pm3"
     "\<not> m_running pm3" "m_stopping pm3" "m_failovertimer pm3 = None"
     "m_submithrtimer pm3 = None" "\<not> isMining (farm pm3)"
    by (simp add: run_handler_def onDisconnected_def Let_def pm2_def emit_def Farm_stop_def)
  have "stop_wait pm2 = Some (Inr pm3)"
    apply (subst stop_wait.simps)
    using assms(1) pm3 by (simp add: pm2_def emit_def stop_wait_not_running)
  moreover have "client_disconnect (pm\<lparr>m_async_pending := True, m_stopping := True\<rparr>) = Inr pm2"
    using c assms(3) by (simp add: client_disconnect_def pm2_def)
  ultimately show ?thesis
    using assms(1,2) pm3 by (simp add: stop_def Let_def client_isConnected_def)
qed

text \<open>
  The other path of \<open>stop()\<close>, taken when there is no client or the client is not
  connected: the call returns with both timers cancelled and the farm stopped, and
  \<open>m_running\<close> is still set.
\<close>

lemma stop_not_connected:
  assumes "m_running pm" and "\<not> client_isConnected pm"
  shows "\<exists>pm'. stop pm = Some (Inr pm') \<and> m_running pm' \<and> m_stopping pm'
     \<and> m_failovertimer pm' = None \<and> m_submithrtimer pm' = None \<and> \<not> isMining (farm pm')"
  using assms
  by (simp add: stop_def Let_def client_isConnected_def Farm_stop_def emit_def)

text \<open>
  Claim C1 says that after \<open>stop()\<close> returns \<open>isRunning()\<close> is false and both timers are
  cancelled, whether or not a client was connected. The code at a failing input: on the
  manager on which \<open>start()\<close> was called and whose first \<open>rotateConnect\<close> has not run yet
  (no client object), \<open>stop()\<close> returns with both timers cancelled and \<open>m_stopping\<close> set,
  but with \<open>m_running\<close> still true; the same call on the connected manager clears it.
\<close>

theorem stop_without_connection_stays_running:
  "(\<exists>pm'. stop started_manager = Some (Inr pm')
       \<and> m_running pm' \<and> m_stopping pm'
       \<and> m_failovertimer pm' = None \<and> m_submithrtimer pm' = None)
   \<and> (\<exists>pm'. stop connected_manager = Some (Inr pm')
       \<and> \<not> m_running pm'
       \<and> m_failovertimer pm' = None \<and> m_submithrtimer pm' = None)"
proof -
  have "m_running started_manager" and "\<not> client_isConnected started_manager"
    by (simp_all add: client_isConnected_def manager_examples)
  from stop_not_connected [OF this]
  have one: "\<exists>pm'. stop started_manager = Some (Inr pm')
       \<and> m_running pm' \<and> m_stopping pm'
       \<and> m_failovertimer pm' = None \<and> m_submithrtimer pm' = None"
    by blast
  have "m_running connected_manager" and "client_isConnected connected_manager"
    and "posted connected_manager = []"
    by (simp_all add: client_isConnected_def manager_examples)
  from stop_connected_terminates [OF this]
  have two: "\<exists>pm'. stop connected_manager = Some (Inr pm')
       \<and> \<not> m_running pm'
       \<and> m_failovertimer pm' = None \<and> m_submithrtimer pm' = None"
    by blast
  from one two show ?thesis
    by blast
qed

section \<open>The search of the CUDA miner\<close>

lemma prime_streams_launches:
  "prime_streams m h n ixs = (m', n') \<Longrightarrow>
     length (launches m') = length (launches m) + length ixs \<and> m_settings m' = m_settings m"
  by (induction m h n ixs rule: prime_streams.induct) (auto simp: launch_kernel_def)

lemma process_streams_launches:
  "process_streams env r w h ixs st = st' \<Longrightarrow>
     length (launches (fst st)) \<le> length (launches (fst st'))"
proof (induction env r w h ixs st arbitrary: st' rule: process_streams.induct)
  case (1 env r w h st)
  then show ?case by simp
next
  case (2 env r w h i rest m n d)
  show ?case
    using "2.IH" [OF refl refl refl refl refl refl refl refl refl] "2.prems"
    by (auto simp: Let_def launch_kernel_def split: if_splits)
qed

lemma search_rounds_launches:
  "search_rounds env fuel r w h m n d = Some m' \<Longrightarrow>
     length (launches m) \<le> length (launches m')"
proof (induction fuel arbitrary: r m n d)
  case 0
  then show ?case by (simp split: if_splits)
next
  case (Suc fuel)
  show ?case
  proof (cases d)
    case True
    with Suc.prems show ?thesis by simp
  next
    case False
    obtain m1 n1 d1 where ps:
      "process_streams env r w h [0..<unat (streams (m_settings m))]
         (m, n, new_work_or_paused env r) = (m1, n1, d1)"
      by (metis prod_cases3)
    from process_streams_launches [OF ps] have le: "length (launches m) \<le> length (launches m1)"
      by simp
    show ?thesis
    proof (cases "shouldStop_round env r")
      case True
      with Suc.prems False ps le show ?thesis by (auto simp: Let_def)
    next
      case nostop: False
      with Suc.prems False ps
      have "search_rounds env fuel (Suc r) w h
              (m1\<lparr>hashrate_updates := Suc (hashrate_updates m1)\<rparr>) n1 d1 = Some m'"
        by (simp add: Let_def)
      from Suc.IH [OF this] le show ?thesis by simp
    qed
  qed
qed

text \<open>
  With any other target a search that returns has launched at least one kernel per
  stream: the early return is the only path without a launch.
\<close>

lemma search_launches_streams:
  assumes "target \<noteq> - 1" and "search env fuel m h target n w = Some m'"
  shows "length (launches m) + unat (streams (m_settings m)) \<le> length (launches m')"
proof -
  define m2 where "m2 = (if m_current_target m \<noteq> target
        then m\<lparr>d_header := h, d_target := target, m_current_target := target\<rparr>
        else m\<lparr>d_header := h\<rparr>)"
  have m2: "launches m2 = launches m" "m_settings m2 = m_settings m"
    by (simp_all add: m2_def)
  obtain m3 n3 where p: "prime_streams m2 h n [0..<unat (streams (m_settings m2))] = (m3, n3)"
    by (metis prod.exhaust)
  with assms have "search_rounds env fuel 0 w h m3 n3 False = Some m'"
    by (auto simp: search_def Let_def m2_def split: if_splits)
  from search_rounds_launches [OF this] prime_streams_launches [OF p] m2
  show ?thesis by simp
qed

lemma easy_wp_upper64: "upper64OfBoundary easy_wp = - 1"
  by code_simp

lemma example_wp_upper64: "upper64OfBoundary example_wp = 0"
  by code_simp

text \<open>
  Claim C9. For every job whose effective boundary has all of its upper 64 bits set, so
  that the target \<open>workLoop\<close> passes to \<open>search\<close> is \<open>UINT64_MAX\<close>, the search returns
  (whatever the other threads and the device do, and without a single round) having
  written header and target only: the list of kernel launches and the list of solutions
  submitted to the farm are as before, and no hash-rate update is recorded.
\<close>

theorem search_skips_max_target:
  assumes "upper64OfBoundary w = - 1"
  shows "\<exists>m'. search env fuel m (header w) (upper64OfBoundary w) (startNonce w) w = Some m'
     \<and> launches m' = launches m \<and> proofs m' = proofs m
     \<and> hashrate_updates m' = hashrate_updates m
     \<and> d_header m' = header w \<and> m_current_target m' = - 1"
  using assms by (auto simp: search_def Let_def)

theorem search_skips_max_target_witness:
  "upper64OfBoundary easy_wp = - 1
   \<and> (\<exists>m'. search quiet_env 0 example_miner (header easy_wp) (upper64OfBoundary easy_wp)
              (startNonce easy_wp) easy_wp = Some m'
         \<and> launches m' = [] \<and> proofs m' = [] \<and> m_current_target m' = - 1)"
proof -
  have "launches example_miner = []" and "proofs example_miner = []"
    by (simp_all add: example_miner_def)
  with search_skips_max_target [OF easy_wp_upper64, of quiet_env 0 example_miner]
    easy_wp_upper64
  show ?thesis
    by auto
qed

text \<open>The same miner on a harder job launches one kernel on each of its two streams.\<close>

lemma search_example_wp_launches:
  "map_option launches
     (search quiet_env 1 example_miner (header example_wp) (upper64OfBoundary example_wp)
        (startNonce example_wp) example_wp) =
   Some [Launch 0 0 17 0 0, Launch 1 131072 17 0 0]"
  by code_simp

end
